theory Spec2Isabelle
  imports Main
begin

section \<open>The sort service of Angular-Slickgrid\<close>

text \<open>
  A shallow embedding of \<^verbatim>\<open>services/sort.service.ts\<close> (class \<^verbatim>\<open>SortService\<close>).
  The fields of the service and the collaborators it talks to (the grid, the data view,
  the backend service, the \<^verbatim>\<open>onSortChanged\<close> subject) are one record that every
  method takes and returns; a call on a collaborator is an entry of a trace, in the
  order of the calls; a \<^verbatim>\<open>throw\<close> (or a \<^verbatim>\<open>TypeError\<close> of the runtime, or a rejected
  promise) is the outcome \<open>Raised\<close>, returned with the state as the exception leaves it.
\<close>

subsection \<open>Values\<close>

text \<open>
  A column identifier is a number or a string (\<^verbatim>\<open>===\<close> tells them apart); only integral
  numbers are modelled.
\<close>

datatype key = KNum int | KStr string

text \<open>
  What a row holds under a field, and what the backend's process resolves to. A value
  that is \<^verbatim>\<open>undefined\<close> is \<open>None\<close> of the option type around it; \<open>JObj\<close> is an object,
  known by a label only.
\<close>

datatype jsval = JNull | JBool bool | JNum int | JStr string | JObj string

type_synonym row = "string \<Rightarrow> jsval option"

text \<open>Truthiness, as \<^verbatim>\<open>if (x)\<close> and \<^verbatim>\<open>x || y\<close> read a value.\<close>

fun truthy :: "jsval option \<Rightarrow> bool" where
  "truthy None = False"
| "truthy (Some JNull) = False"
| "truthy (Some (JBool b)) = b"
| "truthy (Some (JNum n)) = (n \<noteq> 0)"
| "truthy (Some (JStr s)) = (s \<noteq> [])"
| "truthy (Some (JObj l)) = True"

text \<open>The operator \<^verbatim>\<open>||\<close> on optional strings: the empty string is falsy, as \<^verbatim>\<open>undefined\<close> is.\<close>

fun truthy_str :: "string option \<Rightarrow> bool" where
  "truthy_str None = False"
| "truthy_str (Some s) = (s \<noteq> [])"

text \<open>
  Two built-ins of the JavaScript runtime that the service relies on are taken as they
  are, as parameters: the conversion of a number to a string (what \<^verbatim>\<open>n + ''\<close> gives for a
  number \<open>n\<close>) and \<^verbatim>\<open>String.prototype.toUpperCase\<close>. Nothing is assumed about them.
\<close>

record runtime =
  toString :: "int \<Rightarrow> string"
  toUpperCase :: "string \<Rightarrow> string"

text \<open>\<^verbatim>\<open>x + ''\<close>: a string is itself, a number is what the runtime writes for it.\<close>

fun js_string :: "runtime \<Rightarrow> key \<Rightarrow> string" where
  "js_string rt (KStr s) = s"
| "js_string rt (KNum i) = toString rt i"

subsection \<open>The models of \<^verbatim>\<open>models/index\<close>\<close>

text \<open>
  Modelled from the spec: the enum \<^verbatim>\<open>FieldType\<close> is declared in \<^verbatim>\<open>models/index\<close>, which
  is not among the sources; the spec names the value types numeric, date, string and
  boolean. A column that declares no type has \<open>None\<close>.
\<close>

datatype field_type = FTstring | FTnumber | FTboolean | FTdate

text \<open>
  Modelled from the spec: \<^verbatim>\<open>SortDirection.ASC\<close> and \<^verbatim>\<open>SortDirection.DESC\<close> of
  \<^verbatim>\<open>models/index\<close>, the two directions ASC and DESC of a sort specification.
\<close>

definition ASC :: string where
  "ASC = ''ASC''"

definition DESC :: string where
  "DESC = ''DESC''"

text \<open>\<^verbatim>\<open>Column\<close>: the fields the service reads.\<close>

record column =
  id' :: key
  field :: string
  queryField :: "string option"
  queryFieldFilter :: "string option"
  type :: "field_type option"

text \<open>\<^verbatim>\<open>CurrentSorter\<close>: an entry of the canonical sorter state.\<close>

record current_sorter =
  columnId :: key
  direction :: string

text \<open>
  \<^verbatim>\<open>SortChanged\<close>: an entry of the sort columns the comparator walks; the single-column
  gesture builds one without a \<^verbatim>\<open>columnId\<close>.
\<close>

record sort_changed =
  columnId' :: "key option"
  sortAsc :: bool
  sortCol :: "column option"

text \<open>
  The payload of the grid's sort event, \<^verbatim>\<open>args\<close>, without its grid. \<^verbatim>\<open>args.sortCols\<close> is
  \<open>None\<close> when it is \<^verbatim>\<open>undefined\<close> and an array otherwise, whose entries may be \<^verbatim>\<open>null\<close>
  (\<open>None\<close>). \<^verbatim>\<open>args.multiColumnSort\<close> and \<^verbatim>\<open>args.sortAsc\<close> are read for their truthiness.
\<close>

record gesture =
  args_multiColumnSort :: bool
  args_sortCols :: "sort_changed option list option"
  args_sortAsc :: bool
  args_sortCol :: "column option"

text \<open>The payload of the data view's row-count event.\<close>

record rowcount_args =
  previous :: int
  current :: int

subsection \<open>Errors and effects\<close>

datatype error = TypeError | Error string

datatype outcome = Returned | Raised error

text \<open>The two messages of \<^verbatim>\<open>attachBackendOnSortSubscribe\<close>.\<close>

definition args_not_populated :: string where
  \<open>args_not_populated =
     ''Something went wrong when trying to attach the "attachBackendOnSortSubscribe(event, args)" function, it seems that "args" is not populated correctly''\<close>

definition backend_api_required :: string where
  \<open>backend_api_required =
     ''BackendServiceApi requires at least a "process" function and a "service" defined''\<close>

text \<open>
  The calls on the collaborators. \<open>LoadLocalPresets\<close> is not a call on a collaborator:
  it marks an entry into \<^verbatim>\<open>loadLocalPresets\<close>, so that its invocations can be counted.
\<close>

datatype effect =
    PreProcess
  | ServiceOnSortChanged
  | ServiceGetCurrentSorters
  | Emit "current_sorter list"
  | Process string
  | Await
  | InternalPostProcess "jsval option"
  | PostProcess "jsval option"
  | DataViewSort
  | GridInvalidate
  | GridRender
  | GridSetSortColumns "sort_changed list"
  | SubscriberSubscribe
  | SubscriberUnsubscribe
  | EventHandlerSubscribe
  | EventHandlerUnsubscribeAll
  | LoadLocalPresets

subsection \<open>The backend contract and the grid\<close>

text \<open>
  The backend service keeps a state of its own, of type \<open>'ss\<close>: \<^verbatim>\<open>onSortChanged\<close> reads the
  gesture, answers a query and may change that state; \<^verbatim>\<open>getCurrentSorters\<close>, when the
  service has it, reads the state.
\<close>

record 'ss service =
  onSortChanged :: "gesture \<Rightarrow> 'ss \<Rightarrow> string \<times> 'ss"
  getCurrentSorters :: "('ss \<Rightarrow> current_sorter list) option"

text \<open>
  \<^verbatim>\<open>BackendServiceApi\<close>: the hooks are present or not; \<^verbatim>\<open>process\<close> answers what the awaited
  promise settles to: \<open>Inl\<close> a rejection, \<open>Inr\<close> the value.
\<close>

record 'ss backend_api =
  preProcess :: bool
  process :: "(string \<Rightarrow> error + jsval option) option"
  service :: "'ss service option"
  internalPostProcess :: bool
  postProcess :: bool

record presets =
  sorters :: "current_sorter list option"

record 'ss grid_option =
  backendServiceApi :: "'ss backend_api option"
  onBackendEventApi :: "'ss backend_api option"
  presets :: "presets option"

text \<open>\<^verbatim>\<open>grid.onSort\<close>: whether its \<^verbatim>\<open>unsubscribe\<close> is a function.\<close>

record slick_event =
  unsubscribe :: bool

record 'ss grid =
  getOptions :: "'ss grid_option option"
  onSort :: slick_event

text \<open>\<^verbatim>\<open>args\<close> as the backend handler reads it: the gesture and \<^verbatim>\<open>args.grid\<close>.\<close>

record 'ss args = gesture +
  args_grid :: "'ss grid option"

subsection \<open>The state\<close>

text \<open>
  The private fields of the service (\<^verbatim>\<open>_currentLocalSorters\<close>, \<^verbatim>\<open>_eventHandler\<close>, \<^verbatim>\<open>_grid\<close>,
  \<^verbatim>\<open>_gridOptions\<close>, \<^verbatim>\<open>_slickSubscriber\<close>), the state of the backend service, the rows of the
  data view, and the trace of the calls made so far.
\<close>

record 'ss world =
  currentLocalSorters :: "current_sorter list"
  eventHandler :: "string list"
  grid_field :: "'ss grid option"
  gridOptions :: "'ss grid_option option"
  slickSubscriber :: "slick_event option"
  backend :: 'ss
  rows :: "row list"
  trace :: "effect list"

text \<open>A service as its constructor leaves it, beside a backend state and rows.\<close>

definition init :: "'ss \<Rightarrow> row list \<Rightarrow> 'ss world" where
  "init b rs =
     \<lparr>currentLocalSorters = [], eventHandler = [], grid_field = None, gridOptions = None,
      slickSubscriber = None, backend = b, rows = rs, trace = []\<rparr>"

definition call :: "effect \<Rightarrow> 'ss world \<Rightarrow> 'ss world" where
  "call e s = s\<lparr>trace := trace s @ [e]\<rparr>"

subsection \<open>The comparator of \<^verbatim>\<open>onLocalSortChanged\<close>\<close>

text \<open>
  \<^verbatim>\<open>sortByFieldType(value1, value2, fieldType, sortDirection)\<close> is imported from
  \<^verbatim>\<open>sorters/sorterUtilities\<close>, which is not among the sources: the comparator takes it as
  the parameter \<open>sbft\<close>.
\<close>

type_synonym sorter = "jsval option \<Rightarrow> jsval option \<Rightarrow> field_type \<Rightarrow> int \<Rightarrow> int"

text \<open>
  Modelled from the spec: \<^verbatim>\<open>sortByFieldType\<close> of \<^verbatim>\<open>sorters/sorterUtilities\<close>, missing from
  the sources: the comparison of the two values by the ordering of the field type \<open>cmp\<close>,
  multiplied by the direction.
\<close>

definition sortByFieldType :: "(field_type \<Rightarrow> jsval option \<Rightarrow> jsval option \<Rightarrow> int) \<Rightarrow> sorter" where
  "sortByFieldType cmp value1 value2 fieldType sortDirection = sortDirection * cmp fieldType value1 value2"

text \<open>\<^verbatim>\<open>sortCol.queryField || sortCol.queryFieldFilter || sortCol.field\<close>\<close>

definition sortField :: "column \<Rightarrow> string" where
  "sortField c =
     (if truthy_str (queryField c) then the (queryField c)
      else if truthy_str (queryFieldFilter c) then the (queryFieldFilter c)
      else field c)"

text \<open>\<^verbatim>\<open>sortCol.type || FieldType.string\<close>\<close>

definition fieldType :: "column \<Rightarrow> field_type" where
  "fieldType c = (case type c of Some t \<Rightarrow> t | None \<Rightarrow> FTstring)"

text \<open>\<^verbatim>\<open>columnSortObj.sortAsc ? 1 : -1\<close>\<close>

definition sortDirection :: "sort_changed \<Rightarrow> int" where
  "sortDirection columnSortObj = (if sortAsc columnSortObj then 1 else - 1)"

text \<open>The body of the \<^verbatim>\<open>for\<close> loop, from index \<open>i\<close> on, and the \<^verbatim>\<open>return 0\<close> after it.\<close>

fun compare_from :: "sorter \<Rightarrow> sort_changed option list \<Rightarrow> row \<Rightarrow> row \<Rightarrow> int" where
  "compare_from sbft [] dataRow1 dataRow2 = 0"
| "compare_from sbft (None # rest) dataRow1 dataRow2 = compare_from sbft rest dataRow1 dataRow2"
| "compare_from sbft (Some columnSortObj # rest) dataRow1 dataRow2 =
     (case sortCol columnSortObj of
        None \<Rightarrow> compare_from sbft rest dataRow1 dataRow2
      | Some c \<Rightarrow>
          sbft (dataRow1 (sortField c)) (dataRow2 (sortField c)) (fieldType c)
            (sortDirection columnSortObj))"

text \<open>
  The comparator handed to \<^verbatim>\<open>dataView.sort\<close>. It reads \<^verbatim>\<open>sortColumns.length\<close> first, which
  is a \<^verbatim>\<open>TypeError\<close> when \<^verbatim>\<open>sortColumns\<close> is \<^verbatim>\<open>undefined\<close>.
\<close>

fun comparator :: "sorter \<Rightarrow> sort_changed option list option \<Rightarrow> row \<Rightarrow> row \<Rightarrow> error + int" where
  "comparator sbft None dataRow1 dataRow2 = Inl TypeError"
| "comparator sbft (Some sortColumns) dataRow1 dataRow2 =
     Inr (compare_from sbft sortColumns dataRow1 dataRow2)"

subsection \<open>The data view\<close>

text \<open>
  Modelled from the spec: the data view's \<^verbatim>\<open>sort(comparatorFn)\<close>, a collaborator outside
  the sources. It is a stable insertion sort: it calls the comparator as soon as there
  are two rows, puts a row before another when the comparator is not positive, and
  passes on what the comparator raises, leaving the rows as they were.
\<close>

fun insert_row :: "(row \<Rightarrow> row \<Rightarrow> error + int) \<Rightarrow> row \<Rightarrow> row list \<Rightarrow> error + row list" where
  "insert_row cmp x [] = Inr [x]"
| "insert_row cmp x (y # ys) =
     (case cmp x y of
        Inl e \<Rightarrow> Inl e
      | Inr c \<Rightarrow>
          if c \<le> 0 then Inr (x # y # ys)
          else (case insert_row cmp x ys of Inl e \<Rightarrow> Inl e | Inr zs \<Rightarrow> Inr (y # zs)))"

fun dataView_sort :: "(row \<Rightarrow> row \<Rightarrow> error + int) \<Rightarrow> row list \<Rightarrow> error + row list" where
  "dataView_sort cmp [] = Inr []"
| "dataView_sort cmp (x # xs) =
     (case dataView_sort cmp xs of Inl e \<Rightarrow> Inl e | Inr ys \<Rightarrow> insert_row cmp x ys)"

subsection \<open>The methods of the service\<close>

datatype sender = Local | Remote

text \<open>\<^verbatim>\<open>emitSortChanged(sender)\<close>\<close>

definition emitSortChanged :: "sender \<Rightarrow> 'ss world \<Rightarrow> 'ss world" where
  "emitSortChanged sndr s =
     (case sndr of
        Remote \<Rightarrow>
          (case gridOptions s of
             None \<Rightarrow> s
           | Some opts \<Rightarrow>
               (case backendServiceApi opts of
                  None \<Rightarrow> s
                | Some api \<Rightarrow>
                    (case service api of
                       None \<Rightarrow> call (Emit []) s
                     | Some backendService \<Rightarrow>
                         (case getCurrentSorters backendService of
                            None \<Rightarrow> call (Emit []) s
                          | Some get \<Rightarrow>
                              call (Emit (get (backend s))) (call ServiceGetCurrentSorters s)))))
      | Local \<Rightarrow> call (Emit (currentLocalSorters s)) s)"

text \<open>\<^verbatim>\<open>onLocalSortChanged(grid, gridOptions, dataView, sortColumns)\<close>\<close>

definition onLocalSortChanged ::
  "sorter \<Rightarrow> sort_changed option list option \<Rightarrow> 'ss world \<Rightarrow> outcome \<times> 'ss world" where
  "onLocalSortChanged sbft sortColumns s =
     (case dataView_sort (comparator sbft sortColumns) (rows s) of
        Inl e \<Rightarrow> (Raised e, call DataViewSort s)
      | Inr sorted_rows \<Rightarrow>
          (Returned, call GridRender (call GridInvalidate (call DataViewSort (s\<lparr>rows := sorted_rows\<rparr>)))))"

text \<open>
  The loop of \<^verbatim>\<open>loadLocalPresets\<close> over the column definitions, with the two lists it
  pushes to: \<^verbatim>\<open>sortCols\<close> and \<^verbatim>\<open>_currentLocalSorters\<close>.
\<close>

fun presets_loop ::
  "runtime \<Rightarrow> current_sorter list \<Rightarrow> column list \<Rightarrow> sort_changed list \<times> current_sorter list \<Rightarrow>
   sort_changed list \<times> current_sorter list" where
  "presets_loop rt srt [] acc = acc"
| "presets_loop rt srt (columnDef # rest) (sortCols, cur) =
     (case find (\<lambda>currentSorter. columnId currentSorter = id' columnDef) srt of
        None \<Rightarrow> presets_loop rt srt rest (sortCols, cur)
      | Some columnPreset \<Rightarrow>
          presets_loop rt srt rest
            (sortCols @
               [\<lparr>columnId' = Some (id' columnDef),
                 sortAsc = (toUpperCase rt (direction columnPreset) = ASC),
                 sortCol = Some columnDef\<rparr>],
             cur @
               [\<lparr>columnId = KStr (js_string rt (id' columnDef)),
                 direction = toUpperCase rt (direction columnPreset)\<rparr>]))"

text \<open>\<^verbatim>\<open>loadLocalPresets(grid, gridOptions, dataView, columnDefinitions)\<close>\<close>

definition loadLocalPresets ::
  "runtime \<Rightarrow> sorter \<Rightarrow> 'ss grid_option option \<Rightarrow> column list \<Rightarrow> 'ss world \<Rightarrow> outcome \<times> 'ss world" where
  "loadLocalPresets rt sbft opts columnDefinitions s =
     (let s0 = (call LoadLocalPresets s)\<lparr>currentLocalSorters := []\<rparr> in
      case opts of
        None \<Rightarrow> (Returned, s0)
      | Some go \<Rightarrow>
          (case presets go of
             None \<Rightarrow> (Returned, s0)
           | Some p \<Rightarrow>
               (case sorters p of
                  None \<Rightarrow> (Returned, s0)
                | Some srt \<Rightarrow>
                    (let (sortCols, cur) = presets_loop rt srt columnDefinitions ([], []);
                         s1 = s0\<lparr>currentLocalSorters := cur\<rparr>
                     in if sortCols \<noteq> [] then
                          (case onLocalSortChanged sbft (Some (map Some sortCols)) s1 of
                             (Raised e, s2) \<Rightarrow> (Raised e, s2)
                           | (Returned, s2) \<Rightarrow> (Returned, call (GridSetSortColumns sortCols) s2))
                        else (Returned, s1)))))"

text \<open>
  The \<^verbatim>\<open>forEach\<close> of the sort handler: an entry that is \<^verbatim>\<open>null\<close> has no \<^verbatim>\<open>sortCol\<close> to
  read.
\<close>

fun push_sorters :: "sort_changed option list \<Rightarrow> 'ss world \<Rightarrow> outcome \<times> 'ss world" where
  "push_sorters [] s = (Returned, s)"
| "push_sorters (None # rest) s = (Raised TypeError, s)"
| "push_sorters (Some sortColumn # rest) s =
     push_sorters rest
       (case sortCol sortColumn of
          None \<Rightarrow> s
        | Some c \<Rightarrow>
            s\<lparr>currentLocalSorters := currentLocalSorters s @
                [\<lparr>columnId = id' c, direction = (if sortAsc sortColumn then ASC else DESC)\<rparr>]\<rparr>)"

text \<open>
  The single-column gesture as an array of one object, the multi-column one as it comes.
\<close>

definition normalize :: "'z gesture_scheme \<Rightarrow> sort_changed option list option" where
  "normalize a =
     (if args_multiColumnSort a then args_sortCols a
      else Some [Some \<lparr>columnId' = None, sortAsc = args_sortAsc a, sortCol = args_sortCol a\<rparr>])"

text \<open>
  The handler that \<^verbatim>\<open>attachLocalOnSort\<close> subscribes to \<^verbatim>\<open>grid.onSort\<close>; \<open>None\<close> is an
  \<^verbatim>\<open>args\<close> that is \<^verbatim>\<open>undefined\<close>.
\<close>

definition onSort_local :: "sorter \<Rightarrow> 'z gesture_scheme option \<Rightarrow> 'ss world \<Rightarrow> outcome \<times> 'ss world" where
  "onSort_local sbft args s =
     (case args of
        None \<Rightarrow> (Raised TypeError, s)
      | Some a \<Rightarrow>
          (let sortColumns = normalize a;
               s1 = s\<lparr>currentLocalSorters := []\<rparr>
           in case (case sortColumns of None \<Rightarrow> (Returned, s1) | Some cols \<Rightarrow> push_sorters cols s1) of
                (Raised e, s2) \<Rightarrow> (Raised e, s2)
              | (Returned, s2) \<Rightarrow>
                  (case onLocalSortChanged sbft sortColumns s2 of
                     (Raised e, s3) \<Rightarrow> (Raised e, s3)
                   | (Returned, s3) \<Rightarrow> (Returned, emitSortChanged Local s3))))"

text \<open>The handler that \<^verbatim>\<open>attachLocalOnSort\<close> subscribes to \<^verbatim>\<open>dataView.onRowCountChanged\<close>.\<close>

definition onRowCountChanged ::
  "runtime \<Rightarrow> sorter \<Rightarrow> 'ss grid_option option \<Rightarrow> column list \<Rightarrow> rowcount_args \<Rightarrow> 'ss world \<Rightarrow>
   outcome \<times> 'ss world" where
  "onRowCountChanged rt sbft opts columnDefinitions args s =
     (if current args > 0 then loadLocalPresets rt sbft opts columnDefinitions s
      else (Returned, s))"

text \<open>\<^verbatim>\<open>attachLocalOnSort\<close> and \<^verbatim>\<open>attachBackendOnSort\<close>: the fields they set, the subscriptions.\<close>

definition attachLocalOnSort :: "'ss grid \<Rightarrow> 'ss grid_option option \<Rightarrow> 'ss world \<Rightarrow> 'ss world" where
  "attachLocalOnSort g opts s =
     call EventHandlerSubscribe
       (call SubscriberSubscribe
          (s\<lparr>grid_field := Some g, gridOptions := opts, slickSubscriber := Some (onSort g),
             eventHandler := eventHandler s @ [''onRowCountChanged'']\<rparr>))"

definition attachBackendOnSort :: "'ss grid \<Rightarrow> 'ss grid_option option \<Rightarrow> 'ss world \<Rightarrow> 'ss world" where
  "attachBackendOnSort g opts s =
     call SubscriberSubscribe
       (s\<lparr>grid_field := Some g, gridOptions := opts, slickSubscriber := Some (onSort g)\<rparr>)"

text \<open>
  The two hooks that \<^verbatim>\<open>attachBackendOnSortSubscribe\<close> calls after the \<^verbatim>\<open>await\<close>:
  \<^verbatim>\<open>internalPostProcess\<close> when the result is truthy and the hook is there, then
  \<^verbatim>\<open>postProcess\<close> when it is there.
\<close>

definition post_hooks :: "'ss backend_api \<Rightarrow> jsval option \<Rightarrow> 'ss world \<Rightarrow> 'ss world" where
  "post_hooks backendApi processResult s =
     (let s1 = (if truthy processResult \<and> internalPostProcess backendApi
                then call (InternalPostProcess processResult) s else s)
      in if postProcess backendApi then call (PostProcess processResult) s1 else s1)"

text \<open>\<^verbatim>\<open>args.grid.getOptions() || {}\<close>\<close>

definition options_of :: "'ss grid \<Rightarrow> 'ss grid_option" where
  "options_of g =
     (case getOptions g of
        None \<Rightarrow> \<lparr>backendServiceApi = None, onBackendEventApi = None, presets = None\<rparr>
      | Some opts \<Rightarrow> opts)"

text \<open>\<^verbatim>\<open>gridOptions.backendServiceApi || gridOptions.onBackendEventApi\<close>\<close>

definition backendApi_of :: "'ss grid_option \<Rightarrow> 'ss backend_api option" where
  "backendApi_of opts =
     (case backendServiceApi opts of
        Some api \<Rightarrow> Some api
      | None \<Rightarrow> onBackendEventApi opts)"

text \<open>
  \<^verbatim>\<open>attachBackendOnSortSubscribe(event, args)\<close>. The function is \<^verbatim>\<open>async\<close>: what it throws
  is the rejection of the promise it returns. \<^verbatim>\<open>castToPromise\<close> (of \<^verbatim>\<open>utilities\<close>) and the
  \<^verbatim>\<open>await\<close> on it are the entry \<open>Await\<close>, after which the value of \<open>process\<close> is known.
\<close>

definition attachBackendOnSortSubscribe :: "'ss args option \<Rightarrow> 'ss world \<Rightarrow> outcome \<times> 'ss world" where
  "attachBackendOnSortSubscribe args s =
     (case args of
        None \<Rightarrow> (Raised (Error args_not_populated), s)
      | Some a \<Rightarrow>
          (case args_grid a of
             None \<Rightarrow> (Raised (Error args_not_populated), s)
           | Some g \<Rightarrow>
               (case backendApi_of (options_of g) of
                  None \<Rightarrow> (Raised (Error backend_api_required), s)
                | Some backendApi \<Rightarrow>
                    (case process backendApi of
                       None \<Rightarrow> (Raised (Error backend_api_required), s)
                     | Some proc \<Rightarrow>
                         (case service backendApi of
                            None \<Rightarrow> (Raised (Error backend_api_required), s)
                          | Some svc \<Rightarrow>
                              (let s1 = (if preProcess backendApi then call PreProcess s else s);
                                   (query, b) = onSortChanged svc (gesture.truncate a) (backend s1);
                                   s2 = call ServiceOnSortChanged (s1\<lparr>backend := b\<rparr>);
                                   s3 = emitSortChanged Remote s2;
                                   s4 = call Await (call (Process query) s3)
                               in case proc query of
                                    Inl e \<Rightarrow> (Raised e, s4)
                                  | Inr processResult \<Rightarrow>
                                      (Returned, post_hooks backendApi processResult s4)))))))"

text \<open>
  \<^verbatim>\<open>this._slickSubscriber.unsubscribe()\<close>, as a call that is not guarded: a \<^verbatim>\<open>TypeError\<close> when
  there is no subscriber or its \<^verbatim>\<open>unsubscribe\<close> is not a function.
\<close>

definition call_unsubscribe :: "slick_event option \<Rightarrow> 'ss world \<Rightarrow> outcome \<times> 'ss world" where
  "call_unsubscribe sub s =
     (case sub of
        None \<Rightarrow> (Raised TypeError, s)
      | Some e \<Rightarrow> if unsubscribe e then (Returned, call SubscriberUnsubscribe s) else (Raised TypeError, s))"

text \<open>
  \<^verbatim>\<open>dispose()\<close>: the guarded call above, then \<^verbatim>\<open>this._eventHandler.unsubscribeAll()\<close> on
  the handler the constructor made, which forgets its subscriptions.
\<close>

definition dispose :: "'ss world \<Rightarrow> outcome \<times> 'ss world" where
  "dispose s =
     (case (if (case slickSubscriber s of None \<Rightarrow> False | Some e \<Rightarrow> unsubscribe e)
            then call_unsubscribe (slickSubscriber s) s else (Returned, s)) of
        (Raised e, s1) \<Rightarrow> (Raised e, s1)
      | (Returned, s1) \<Rightarrow> (Returned, call EventHandlerUnsubscribeAll (s1\<lparr>eventHandler := []\<rparr>)))"

subsection \<open>Predicates of the statements and sample inputs\<close>

text \<open>An entry of the sort columns the comparator passes over: \<^verbatim>\<open>null\<close>, or without a column.\<close>

definition no_column :: "sort_changed option \<Rightarrow> bool" where
  "no_column entry =
     (case entry of None \<Rightarrow> True | Some columnSortObj \<Rightarrow> sortCol columnSortObj = None)"




text \<open>
  A sample runtime for the concrete inputs below. It writes an integer in decimal and
  maps the letters a to z to upper case, as JavaScript does on the integers it holds
  exactly below 10^21 and on ASCII text; it stands for the runtime on such inputs only.
\<close>

fun digits :: "nat \<Rightarrow> string" where
  "digits n =
     (if n < 10 then [''0123456789'' ! n]
      else digits (n div 10) @ [''0123456789'' ! (n mod 10)])"

definition decimal :: "int \<Rightarrow> string" where
  "decimal i = (if i < 0 then CHR ''-'' # digits (nat (- i)) else digits (nat i))"

definition upper_char :: "char \<Rightarrow> char" where
  "upper_char c =
     (case map_of (zip ''abcdefghijklmnopqrstuvwxyz'' ''ABCDEFGHIJKLMNOPQRSTUVWXYZ'') c of
        Some u \<Rightarrow> u
      | None \<Rightarrow> c)"

definition ascii_upper :: "string \<Rightarrow> string" where
  "ascii_upper s = map upper_char s"

definition ascii_runtime :: runtime where
  "ascii_runtime = \<lparr>toString = decimal, toUpperCase = ascii_upper\<rparr>"

text \<open>
  A sample ordering for the concrete inputs below: two numbers by their value, anything
  else as equal.
\<close>

fun sample_cmp :: "field_type \<Rightarrow> jsval option \<Rightarrow> jsval option \<Rightarrow> int" where
  "sample_cmp t (Some (JNum x)) (Some (JNum y)) = (if x = y then 0 else if x > y then 1 else - 1)"
| "sample_cmp t value1 value2 = 0"

text \<open>
  Sample columns: \<open>col_price\<close> is compared through its query field, \<open>col_name\<close> through
  the query field of its filter (its own query field is the empty string).
\<close>

definition col_A :: column where
  "col_A = \<lparr>id' = KStr ''A'', field = ''a'', queryField = None, queryFieldFilter = None, type = None\<rparr>"

definition col_B :: column where
  "col_B = \<lparr>id' = KStr ''B'', field = ''b'', queryField = None, queryFieldFilter = None, type = None\<rparr>"

definition col_C :: column where
  "col_C = \<lparr>id' = KNum 3, field = ''c'', queryField = None, queryFieldFilter = None, type = None\<rparr>"

definition col_price :: column where
  "col_price =
     \<lparr>id' = KStr ''price'', field = ''label'', queryField = Some ''v'', queryFieldFilter = None,
      type = Some FTnumber\<rparr>"

definition col_name :: column where
  "col_name =
     \<lparr>id' = KStr ''name'', field = ''name'', queryField = Some [], queryFieldFilter = Some ''n'',
      type = Some FTstring\<rparr>"

definition row_5 :: row where
  "row_5 = map_of [(''v'', JNum 5), (''label'', JStr ''five'')]"

definition row_2 :: row where
  "row_2 = map_of [(''v'', JNum 2), (''label'', JStr ''two'')]"

text \<open>Sample presets, for the columns B and A in this order, and in the other order.\<close>

definition sample_presets :: "'ss grid_option" where
  "sample_presets =
     \<lparr>backendServiceApi = None, onBackendEventApi = None,
      presets = Some \<lparr>sorters = Some [\<lparr>columnId = KStr ''B'', direction = ''desc''\<rparr>,
                                      \<lparr>columnId = KStr ''A'', direction = ''asc''\<rparr>]\<rparr>\<rparr>"

definition sample_presets_rev :: "'ss grid_option" where
  "sample_presets_rev =
     \<lparr>backendServiceApi = None, onBackendEventApi = None,
      presets = Some \<lparr>sorters = Some [\<lparr>columnId = KStr ''A'', direction = ''asc''\<rparr>,
                                      \<lparr>columnId = KStr ''B'', direction = ''desc''\<rparr>]\<rparr>\<rparr>"

text \<open>
  A sample backend: its service keeps the sorters it holds, whatever the gesture, and its
  process resolves to an object. \<open>legacy_options\<close> configures it through
  \<^verbatim>\<open>onBackendEventApi\<close> only.
\<close>

definition sample_service :: "current_sorter list service" where
  "sample_service = \<lparr>onSortChanged = (\<lambda>g st. (''orderby'', st)), getCurrentSorters = Some (\<lambda>st. st)\<rparr>"

definition sample_api :: "current_sorter list backend_api" where
  "sample_api =
     \<lparr>preProcess = True, process = Some (\<lambda>query. Inr (Some (JObj ''data''))),
      service = Some sample_service, internalPostProcess = True, postProcess = True\<rparr>"

definition sample_options :: "current_sorter list grid_option" where
  "sample_options = \<lparr>backendServiceApi = Some sample_api, onBackendEventApi = None, presets = None\<rparr>"

definition legacy_options :: "current_sorter list grid_option" where
  "legacy_options = \<lparr>backendServiceApi = None, onBackendEventApi = Some sample_api, presets = None\<rparr>"



text \<open>A single-column gesture on a grid with the given options.\<close>

definition sample_args :: "current_sorter list grid_option \<Rightarrow> current_sorter list args" where
  "sample_args opts =
     \<lparr>args_multiColumnSort = False, args_sortCols = None, args_sortAsc = True,
      args_sortCol = Some col_A,
      args_grid = Some \<lparr>getOptions = Some opts, onSort = \<lparr>unsubscribe = True\<rparr>\<rparr>\<rparr>"

text \<open>
  A service after \<^verbatim>\<open>attachBackendOnSort\<close> with the given options; the backend holds a
  descending sort on the column B.
\<close>

definition sample_world :: "current_sorter list grid_option \<Rightarrow> current_sorter list world" where
  "sample_world opts =
     attachBackendOnSort \<lparr>getOptions = Some opts, onSort = \<lparr>unsubscribe = True\<rparr>\<rparr> (Some opts)
       (init [\<lparr>columnId = KStr ''B'', direction = ''DESC''\<rparr>] [])"

section \<open>Properties\<close>

subsection \<open>The comparator\<close>

lemma compare_from_skip:
  "list_all no_column pre \<Longrightarrow>
   compare_from sbft (pre @ rest) dataRow1 dataRow2 = compare_from sbft rest dataRow1 dataRow2"
proof (induction pre)
  case Nil
  then show ?case by simp
next
  case (Cons entry pre)
  then show ?case
    by (cases entry) (simp_all add: no_column_def)
qed

lemma compare_from_none:
  "list_all no_column pre \<Longrightarrow> compare_from sbft pre dataRow1 dataRow2 = 0"
  using compare_from_skip [of pre sbft "[]" dataRow1 dataRow2] by simp

text \<open>
  Claim C2. When the entries \<open>pre\<close> have no column, they decide nothing: alone they give
  0, and followed by an entry with a column \<open>c\<close> the comparator returns what
  \<^verbatim>\<open>sortByFieldType\<close> answers for the two rows' values under the sort field of \<open>c\<close>, its
  field type and the direction 1 (ascending) or -1 (descending), whatever entries \<open>rest\<close>
  follow; with \<^verbatim>\<open>sortByFieldType\<close> as the spec describes it, that is the comparison of the
  field type times the direction. The sort field is the query field, else the filter's
  query field, else the base field (an empty string counts as absent); the field type is
  string when the column declares none.
\<close>

theorem comparator_first_column:
  assumes "list_all no_column pre"
  shows "comparator sbft (Some pre) dataRow1 dataRow2 = Inr 0 \<and>
    (sortCol columnSortObj = Some c \<longrightarrow>
       comparator sbft (Some (pre @ Some columnSortObj # rest)) dataRow1 dataRow2 =
         Inr (sbft (dataRow1 (sortField c)) (dataRow2 (sortField c)) (fieldType c)
                (if sortAsc columnSortObj then 1 else - 1)) \<and>
       comparator (sortByFieldType cmp) (Some (pre @ Some columnSortObj # rest)) dataRow1 dataRow2 =
         Inr ((if sortAsc columnSortObj then 1 else - 1) *
                cmp (fieldType c) (dataRow1 (sortField c)) (dataRow2 (sortField c)))) \<and>
    (queryField c = Some q \<and> q \<noteq> [] \<longrightarrow> sortField c = q) \<and>
    (\<not> truthy_str (queryField c) \<and> queryFieldFilter c = Some f \<and> f \<noteq> [] \<longrightarrow> sortField c = f) \<and>
    (\<not> truthy_str (queryField c) \<and> \<not> truthy_str (queryFieldFilter c) \<longrightarrow> sortField c = field c) \<and>
    (type c = None \<longrightarrow> fieldType c = FTstring) \<and>
    (type c = Some t \<longrightarrow> fieldType c = t)"
  using assms
  by (simp add: compare_from_none compare_from_skip sortDirection_def sortByFieldType_def
      sortField_def fieldType_def)

theorem comparator_first_column_witness:
  "list_all no_column [None, Some \<lparr>columnId' = None, sortAsc = True, sortCol = None\<rparr>] \<and>
   comparator (sortByFieldType sample_cmp)
     (Some [None, Some \<lparr>columnId' = None, sortAsc = True, sortCol = None\<rparr>]) row_5 row_2 = Inr 0 \<and>
   comparator (sortByFieldType sample_cmp)
     (Some [None, Some \<lparr>columnId' = None, sortAsc = True, sortCol = None\<rparr>,
            Some \<lparr>columnId' = None, sortAsc = False, sortCol = Some col_price\<rparr>,
            Some \<lparr>columnId' = None, sortAsc = True, sortCol = Some col_A\<rparr>])
     row_5 row_2 = Inr (- 1) \<and>
   sortField col_price = ''v'' \<and> fieldType col_price = FTnumber \<and>
   sortField col_name = ''n'' \<and> sortField col_A = ''a'' \<and> fieldType col_A = FTstring"
proof -
  let ?pre = "[None, Some \<lparr>columnId' = None, sortAsc = True, sortCol = None\<rparr>]"
  let ?desc = "\<lparr>columnId' = None, sortAsc = False, sortCol = Some col_price\<rparr>"
  let ?rest = "[Some \<lparr>columnId' = None, sortAsc = True, sortCol = Some col_A\<rparr>]"
  have pre: "list_all no_column ?pre"
    by (simp add: no_column_def)
  have price: "sortCol ?desc = Some col_price" "queryField col_price = Some ''v''"
    "type col_price = Some FTnumber"
    by (simp_all add: col_price_def)
  have name: "\<not> truthy_str (queryField col_name)" "queryFieldFilter col_name = Some ''n''"
    by (simp_all add: col_name_def)
  have a: "\<not> truthy_str (queryField col_A)" "\<not> truthy_str (queryFieldFilter col_A)"
    "type col_A = None" "field col_A = ''a''"
    by (simp_all add: col_A_def)
  note at_price = comparator_first_column [OF pre, of "sortByFieldType sample_cmp" row_5 row_2
      ?desc col_price ?rest sample_cmp "''v''" "''x''" FTnumber]
  note at_name = comparator_first_column [OF pre, where c = col_name and f = "''n''"]
  note at_A = comparator_first_column [OF pre, where c = col_A]
  from at_price price have field_price: "sortField col_price = ''v''" and type_price: "fieldType col_price = FTnumber"
    and zero: "comparator (sortByFieldType sample_cmp) (Some ?pre) row_5 row_2 = Inr 0"
    and cmp: "comparator (sortByFieldType sample_cmp) (Some (?pre @ Some ?desc # ?rest)) row_5 row_2 =
      Inr ((if sortAsc ?desc then 1 else - 1) *
           sample_cmp (fieldType col_price) (row_5 (sortField col_price)) (row_2 (sortField col_price)))"
    by (simp_all add: sortByFieldType_def sortDirection_def)
  from at_name name have field_name: "sortField col_name = ''n''" by simp
  from at_A a have field_A: "sortField col_A = ''a''" and type_A: "fieldType col_A = FTstring"
    by simp_all
  from cmp have "comparator (sortByFieldType sample_cmp) (Some (?pre @ Some ?desc # ?rest)) row_5 row_2 =
      Inr (- 1)"
    by (simp add: field_price type_price row_5_def row_2_def)
  with pre zero field_price type_price field_name field_A type_A show ?thesis by simp
qed

subsection \<open>The data view\<close>

lemma dataView_insert_total:
  "\<forall>a b. \<exists>c. cmp a b = Inr c \<Longrightarrow> \<exists>zs. insert_row cmp x ys = Inr zs"
proof (induction ys)
  case Nil
  then show ?case by simp
next
  case (Cons y ys)
  from Cons.prems obtain c where c: "cmp x y = Inr c" by blast
  from Cons obtain zs where "insert_row cmp x ys = Inr zs" by blast
  with c show ?case by simp
qed

lemma dataView_sort_total:
  assumes "\<forall>a b. \<exists>c. cmp a b = Inr c"
  shows "\<exists>zs. dataView_sort cmp xs = Inr zs"
proof (induction xs)
  case Nil
  then show ?case by simp
next
  case (Cons x xs)
  then obtain ys where "dataView_sort cmp xs = Inr ys" by blast
  moreover from assms dataView_insert_total [of cmp x ys]
  obtain zs where "insert_row cmp x ys = Inr zs"
    by blast
  ultimately show ?case by simp
qed

lemma insert_row_equal:
  "\<forall>a b. cmp a b = Inr 0 \<Longrightarrow> insert_row cmp x ys = Inr (x # ys)"
  by (cases ys) simp_all

lemma dataView_sort_equal:
  "\<forall>a b. cmp a b = Inr 0 \<Longrightarrow> dataView_sort cmp xs = Inr xs"
  by (induction xs) (simp_all add: insert_row_equal)

lemma dataView_sort_raises:
  "\<forall>a b. cmp a b = Inl e \<Longrightarrow> dataView_sort cmp (x # y # xs) = Inl e"
proof (induction xs arbitrary: x y)
  case Nil
  then show ?case by simp
next
  case (Cons z zs)
  from Cons.IH [OF Cons.prems, of y z] show ?case by simp
qed

text \<open>With an array of sort columns the comparator never raises, and neither does the sort.\<close>

lemma onLocalSortChanged_array:
  "\<exists>rs. onLocalSortChanged sbft (Some sortColumns) s =
     (Returned, call GridRender (call GridInvalidate (call DataViewSort (s\<lparr>rows := rs\<rparr>))))"
proof -
  obtain rs where "dataView_sort (comparator sbft (Some sortColumns)) (rows s) = Inr rs"
    using dataView_sort_total [of "comparator sbft (Some sortColumns)" "rows s"] by auto
  then have "onLocalSortChanged sbft (Some sortColumns) s =
     (Returned, call GridRender (call GridInvalidate (call DataViewSort (s\<lparr>rows := rs\<rparr>))))"
    by (simp add: onLocalSortChanged_def)
  then show ?thesis by blast
qed

subsection \<open>The presets\<close>

lemma presets_loop_filter:
  "presets_loop rt srt cols (sortCols, cur) =
     (sortCols @ map (\<lambda>c. \<lparr>columnId' = Some (id' c),
                          sortAsc = (toUpperCase rt (direction (the (find (\<lambda>q. columnId q = id' c) srt))) = ASC),
                          sortCol = Some c\<rparr>) (filter (\<lambda>c. id' c \<in> columnId ` set srt) cols),
      cur @ map (\<lambda>c. \<lparr>columnId = KStr (js_string rt (id' c)),
                     direction = toUpperCase rt (direction (the (find (\<lambda>q. columnId q = id' c) srt)))\<rparr>)
              (filter (\<lambda>c. id' c \<in> columnId ` set srt) cols))"
proof (induction cols arbitrary: sortCols cur)
  case Nil
  then show ?case by simp
next
  case (Cons columnDef cols)
  show ?case
  proof (cases "find (\<lambda>q. columnId q = id' columnDef) srt")
    case None
    then have "id' columnDef \<notin> columnId ` set srt"
      by (auto simp: find_None_iff)
    with None show ?thesis using Cons.IH by simp
  next
    case (Some columnPreset)
    then have "id' columnDef \<in> columnId ` set srt"
      by (auto simp: find_Some_iff image_iff) (metis nth_mem)
    with Some show ?thesis using Cons.IH by simp
  qed
qed

lemma find_same_set:
  assumes "set xs = set ys"
    and "\<And>a b. a \<in> set xs \<Longrightarrow> b \<in> set xs \<Longrightarrow> P a \<Longrightarrow> P b \<Longrightarrow> a = b"
  shows "find P xs = find P ys"
proof (cases "find P xs")
  case None
  then have "\<not> (\<exists>x. x \<in> set xs \<and> P x)" by (simp add: find_None_iff)
  with assms(1) have "find P ys = None" by (simp add: find_None_iff)
  with None show ?thesis by simp
next
  case (Some a)
  then have a: "a \<in> set xs" "P a"
    by (auto simp: find_Some_iff)
  with assms(1) have "\<exists>x. x \<in> set ys \<and> P x" by auto
  then obtain b where b: "find P ys = Some b"
    by (cases "find P ys") (auto simp: find_None_iff)
  then have "b \<in> set ys" "P b" by (auto simp: find_Some_iff)
  with a assms have "a = b" by auto
  with Some b show ?thesis by simp
qed

lemma presets_loop_same_set:
  assumes "set srt' = set srt" and "inj_on columnId (set srt)"
  shows "presets_loop rt srt' cols acc = presets_loop rt srt cols acc"
proof -
  have f: "find (\<lambda>p. columnId p = k) srt' = find (\<lambda>p. columnId p = k) srt" for k
    using assms by (intro find_same_set) (auto dest: inj_onD)
  show ?thesis
  proof (induction cols arbitrary: acc)
    case Nil
    then show ?case by simp
  next
    case (Cons columnDef cols)
    obtain sortCols cur where acc: "acc = (sortCols, cur)" by (cases acc)
    show ?case unfolding acc
      by (simp add: f Cons.IH split: option.split)
  qed
qed

lemma loadLocalPresets_result:
  assumes "presets go = Some p" and "sorters p = Some srt"
    and pl: "presets_loop rt srt cols ([], []) = (sortCols, cur)"
  shows "\<exists>rs. loadLocalPresets rt sbft (Some go) cols s =
           (Returned,
            if sortCols = [] then (call LoadLocalPresets s)\<lparr>currentLocalSorters := cur\<rparr>
            else call (GridSetSortColumns sortCols) (call GridRender (call GridInvalidate
                   (call DataViewSort
                      ((call LoadLocalPresets s)\<lparr>currentLocalSorters := cur, rows := rs\<rparr>)))))"
proof (cases "sortCols = []")
  case True
  with assms show ?thesis
    by (simp add: loadLocalPresets_def Let_def)
next
  case False
  obtain rs where
    "onLocalSortChanged sbft (Some (map Some sortCols))
       ((call LoadLocalPresets s)\<lparr>currentLocalSorters := cur\<rparr>) =
     (Returned, call GridRender (call GridInvalidate (call DataViewSort
       ((call LoadLocalPresets s)\<lparr>currentLocalSorters := cur, rows := rs\<rparr>))))"
    using onLocalSortChanged_array [of sbft "map Some sortCols"
        "(call LoadLocalPresets s)\<lparr>currentLocalSorters := cur\<rparr>"] by auto
  with assms False show ?thesis
    by (simp add: loadLocalPresets_def Let_def) blast
qed

lemma loadLocalPresets_sorters:
  assumes "presets go = Some p" and "sorters p = Some srt"
  shows "currentLocalSorters (snd (loadLocalPresets rt sbft (Some go) cols s)) =
      map (\<lambda>c. \<lparr>columnId = KStr (js_string rt (id' c)),
                 direction = toUpperCase rt (direction (the (find (\<lambda>q. columnId q = id' c) srt)))\<rparr>)
        (filter (\<lambda>c. id' c \<in> columnId ` set srt) cols)"
proof -
  obtain sortCols where pl: "presets_loop rt srt cols ([], []) =
      (sortCols,
       map (\<lambda>c. \<lparr>columnId = KStr (js_string rt (id' c)),
                  direction = toUpperCase rt (direction (the (find (\<lambda>q. columnId q = id' c) srt)))\<rparr>)
         (filter (\<lambda>c. id' c \<in> columnId ` set srt) cols))"
    using presets_loop_filter [of rt srt cols "[]" "[]"] by simp
  from loadLocalPresets_result [OF assms pl, of sbft s] show ?thesis
    by (auto simp: call_def)
qed

text \<open>
  Claim C3. With presets \<open>srt\<close>, the canonical sorter state after \<^verbatim>\<open>loadLocalPresets\<close> is
  the column definitions, in their order, that some preset names by \<^verbatim>\<open>columnId\<close>, each with
  its identifier as a string (the runtime's own conversion for a number) and the direction
  of the first preset that names it as the runtime's \<^verbatim>\<open>toUpperCase\<close> gives it; when there is one, the sort columns handed to the comparator and to
  \<^verbatim>\<open>grid.setSortColumns\<close> are the same columns in the same order, ascending exactly when
  that upper-cased direction is ASC. The columns of the result and their order depend only
  on which columns the presets name; presets with the same entries in another order, no
  two of them for one column, give the same result altogether.
\<close>

theorem loadLocalPresets_column_order:
  assumes "presets go = Some p" and "sorters p = Some srt"
  shows "currentLocalSorters (snd (loadLocalPresets rt sbft (Some go) cols s)) =
      map (\<lambda>c. \<lparr>columnId = KStr (js_string rt (id' c)),
                 direction = toUpperCase rt (direction (the (find (\<lambda>q. columnId q = id' c) srt)))\<rparr>)
        (filter (\<lambda>c. id' c \<in> columnId ` set srt) cols) \<and>
    (filter (\<lambda>c. id' c \<in> columnId ` set srt) cols \<noteq> [] \<longrightarrow>
       last (trace (snd (loadLocalPresets rt sbft (Some go) cols s))) =
         GridSetSortColumns
           (map (\<lambda>c. \<lparr>columnId' = Some (id' c),
                      sortAsc = (toUpperCase rt (direction (the (find (\<lambda>q. columnId q = id' c) srt))) = ASC),
                      sortCol = Some c\<rparr>)
              (filter (\<lambda>c. id' c \<in> columnId ` set srt) cols))) \<and>
    (presets go' = Some p' \<and> sorters p' = Some srt' \<and> columnId ` set srt' = columnId ` set srt \<longrightarrow>
       map columnId (currentLocalSorters (snd (loadLocalPresets rt sbft (Some go') cols s))) =
       map columnId (currentLocalSorters (snd (loadLocalPresets rt sbft (Some go) cols s)))) \<and>
    (presets go' = Some p' \<and> sorters p' = Some srt' \<and> set srt' = set srt \<and>
       inj_on columnId (set srt) \<longrightarrow>
       loadLocalPresets rt sbft (Some go') cols s = loadLocalPresets rt sbft (Some go) cols s)"
proof -
  let ?m = "filter (\<lambda>c. id' c \<in> columnId ` set srt) cols"
  let ?sortCols = "map (\<lambda>c. \<lparr>columnId' = Some (id' c),
                      sortAsc = (toUpperCase rt (direction (the (find (\<lambda>q. columnId q = id' c) srt))) = ASC),
                      sortCol = Some c\<rparr>) ?m"
  let ?cur = "map (\<lambda>c. \<lparr>columnId = KStr (js_string rt (id' c)),
                 direction = toUpperCase rt (direction (the (find (\<lambda>q. columnId q = id' c) srt)))\<rparr>) ?m"
  have pl: "presets_loop rt srt cols ([], []) = (?sortCols, ?cur)"
    using presets_loop_filter [of rt srt cols "[]" "[]"] by simp
  from loadLocalPresets_result [OF assms pl, of sbft s]
  obtain rs where run: "loadLocalPresets rt sbft (Some go) cols s =
           (Returned,
            if ?sortCols = [] then (call LoadLocalPresets s)\<lparr>currentLocalSorters := ?cur\<rparr>
            else call (GridSetSortColumns ?sortCols) (call GridRender (call GridInvalidate
                   (call DataViewSort
                      ((call LoadLocalPresets s)\<lparr>currentLocalSorters := ?cur, rows := rs\<rparr>)))))"
    by blast
  have first: "currentLocalSorters (snd (loadLocalPresets rt sbft (Some go) cols s)) = ?cur"
    by (rule loadLocalPresets_sorters [OF assms])
  have second: "?m \<noteq> [] \<longrightarrow>
       last (trace (snd (loadLocalPresets rt sbft (Some go) cols s))) = GridSetSortColumns ?sortCols"
    unfolding run by (simp add: call_def)
  have third: "map columnId (currentLocalSorters (snd (loadLocalPresets rt sbft (Some go') cols s))) =
       map columnId (currentLocalSorters (snd (loadLocalPresets rt sbft (Some go) cols s)))"
    if "presets go' = Some p'" "sorters p' = Some srt'" "columnId ` set srt' = columnId ` set srt"
    using that loadLocalPresets_sorters [OF that(1,2), of rt sbft cols s] first
    by (simp add: comp_def)
  have fourth: "loadLocalPresets rt sbft (Some go') cols s = loadLocalPresets rt sbft (Some go) cols s"
    if "presets go' = Some p'" "sorters p' = Some srt'" "set srt' = set srt" "inj_on columnId (set srt)"
    using that assms presets_loop_same_set [where srt' = srt' and srt = srt and rt = rt and cols = cols
        and acc = "([], [])"]
    by (simp add: loadLocalPresets_def)
  from first second third fourth show ?thesis by blast
qed

theorem loadLocalPresets_column_order_witness:
  "currentLocalSorters (snd (loadLocalPresets ascii_runtime (sortByFieldType sample_cmp) (Some sample_presets)
       [col_A, col_B, col_C] (init () [row_5, row_2]))) =
     [\<lparr>columnId = KStr ''A'', direction = ''ASC''\<rparr>, \<lparr>columnId = KStr ''B'', direction = ''DESC''\<rparr>] \<and>
   last (trace (snd (loadLocalPresets ascii_runtime (sortByFieldType sample_cmp) (Some sample_presets)
       [col_A, col_B, col_C] (init () [row_5, row_2])))) =
     GridSetSortColumns [\<lparr>columnId' = Some (KStr ''A''), sortAsc = True, sortCol = Some col_A\<rparr>,
                         \<lparr>columnId' = Some (KStr ''B''), sortAsc = False, sortCol = Some col_B\<rparr>] \<and>
   loadLocalPresets ascii_runtime (sortByFieldType sample_cmp) (Some sample_presets_rev)
       [col_A, col_B, col_C] (init () [row_5, row_2]) =
     loadLocalPresets ascii_runtime (sortByFieldType sample_cmp) (Some sample_presets)
       [col_A, col_B, col_C] (init () [row_5, row_2])"
proof -
  let ?srt = "[\<lparr>columnId = KStr ''B'', direction = ''desc''\<rparr>, \<lparr>columnId = KStr ''A'', direction = ''asc''\<rparr>]"
  let ?rev = "[\<lparr>columnId = KStr ''A'', direction = ''asc''\<rparr>, \<lparr>columnId = KStr ''B'', direction = ''desc''\<rparr>]"
  have p: "presets (sample_presets :: unit grid_option) = Some \<lparr>sorters = Some ?srt\<rparr>"
    and s: "sorters \<lparr>sorters = Some ?srt\<rparr> = Some ?srt"
    and p': "presets (sample_presets_rev :: unit grid_option) = Some \<lparr>sorters = Some ?rev\<rparr>"
    and s': "sorters \<lparr>sorters = Some ?rev\<rparr> = Some ?rev"
    by (simp_all add: sample_presets_def sample_presets_rev_def)
  have same: "set ?rev = set ?srt" by auto
  have inj: "inj_on columnId (set ?srt)" by simp
  from loadLocalPresets_column_order [OF p s, of ascii_runtime "sortByFieldType sample_cmp"
      "[col_A, col_B, col_C]" "init () [row_5, row_2]" sample_presets_rev "\<lparr>sorters = Some ?rev\<rparr>" ?rev]
    p' s' same inj
  show ?thesis
    by (simp add: col_A_def col_B_def col_C_def ascii_runtime_def ascii_upper_def upper_char_def ASC_def)
qed

subsection \<open>The row-count handler\<close>

lemma loadLocalPresets_trace:
  "\<exists>rest. trace (snd (loadLocalPresets rt sbft opts cols s)) = trace s @ LoadLocalPresets # rest \<and>
     LoadLocalPresets \<notin> set rest"
proof (cases opts)
  case None
  then show ?thesis by (simp add: loadLocalPresets_def call_def)
next
  case (Some go)
  show ?thesis
  proof (cases "presets go")
    case None
    with Some show ?thesis by (simp add: loadLocalPresets_def call_def)
  next
    case p: (Some p)
    show ?thesis
    proof (cases "sorters p")
      case None
      with Some p show ?thesis by (simp add: loadLocalPresets_def call_def)
    next
      case srt: (Some srt)
      obtain sortCols cur where "presets_loop rt srt cols ([], []) = (sortCols, cur)"
        by (cases "presets_loop rt srt cols ([], [])")
      from loadLocalPresets_result [OF p srt this, of sbft s] Some
      show ?thesis by (auto simp: call_def)
    qed
  qed
qed

text \<open>
  Claim C1, as the code has it. A row-count report enters \<^verbatim>\<open>loadLocalPresets\<close> exactly
  once when the count it reports is positive, whatever the count before, and does nothing
  at all otherwise.
\<close>

theorem onRowCountChanged_loads_presets:
  "count_list (trace (snd (onRowCountChanged rt sbft opts cols args s))) LoadLocalPresets =
     count_list (trace s) LoadLocalPresets + (if current args > 0 then 1 else 0) \<and>
   (\<not> current args > 0 \<longrightarrow> onRowCountChanged rt sbft opts cols args s = (Returned, s))"
proof (cases "current args > 0")
  case True
  obtain rest where "trace (snd (loadLocalPresets rt sbft opts cols s)) = trace s @ LoadLocalPresets # rest"
    and "LoadLocalPresets \<notin> set rest"
    using loadLocalPresets_trace by blast
  then show ?thesis using True
    by (simp add: onRowCountChanged_def)
next
  case False
  then show ?thesis by (simp add: onRowCountChanged_def)
qed

theorem onRowCountChanged_loads_presets_witness:
  "count_list
     (trace (snd (onRowCountChanged ascii_runtime (sortByFieldType sample_cmp) (Some sample_presets)
        [col_A, col_B, col_C] \<lparr>previous = 0, current = 2\<rparr> (init () [row_5, row_2]))))
     LoadLocalPresets = 1 \<and>
   onRowCountChanged ascii_runtime (sortByFieldType sample_cmp) (Some sample_presets)
        [col_A, col_B, col_C] \<lparr>previous = 2, current = 0\<rparr> (init () [row_5, row_2]) =
     (Returned, init () [row_5, row_2])"
  using onRowCountChanged_loads_presets [of ascii_runtime "sortByFieldType sample_cmp" "Some sample_presets"
      "[col_A, col_B, col_C]" "\<lparr>previous = 0, current = 2\<rparr>" "init () [row_5, row_2]"]
    onRowCountChanged_loads_presets [of ascii_runtime "sortByFieldType sample_cmp" "Some sample_presets"
      "[col_A, col_B, col_C]" "\<lparr>previous = 2, current = 0\<rparr>" "init () [row_5, row_2]"]
  by (simp add: init_def)

text \<open>
  Claim C1, as the spec states it, fails: on a report of two rows after one row, a
  change from a positive count to a positive count, \<^verbatim>\<open>loadLocalPresets\<close> is entered.
\<close>

theorem onRowCountChanged_positive_to_positive:
  "0 < previous \<lparr>previous = 1, current = 2\<rparr> \<and>
   count_list
     (trace (snd (onRowCountChanged ascii_runtime (sortByFieldType sample_cmp) (Some sample_presets)
        [col_A, col_B, col_C] \<lparr>previous = 1, current = 2\<rparr> (init () [row_5, row_2]))))
     LoadLocalPresets = 1"
  by (simp add: onRowCountChanged_def loadLocalPresets_def sample_presets_def col_A_def col_B_def
      col_C_def init_def call_def onLocalSortChanged_def ascii_runtime_def ascii_upper_def upper_char_def ASC_def
      sortField_def fieldType_def sortDirection_def sortByFieldType_def row_5_def row_2_def)

subsection \<open>The local sort handler\<close>

lemma push_sorters_present:
  "list_all (\<lambda>entry. entry \<noteq> None) cols \<Longrightarrow>
   push_sorters cols s =
     (Returned,
      s\<lparr>currentLocalSorters := currentLocalSorters s @
          map (\<lambda>sortColumn. \<lparr>columnId = id' (the (sortCol sortColumn)),
                              direction = (if sortAsc sortColumn then ASC else DESC)\<rparr>)
            (filter (\<lambda>sortColumn. sortCol sortColumn \<noteq> None) (map the cols))\<rparr>)"
proof (induction cols arbitrary: s)
  case Nil
  then show ?case by simp
next
  case (Cons entry cols)
  then obtain sortColumn where e: "entry = Some sortColumn" by auto
  from Cons have "list_all (\<lambda>entry. entry \<noteq> None) cols" by simp
  note IH = Cons.IH [OF this]
  show ?case unfolding e
    by (cases "sortCol sortColumn") (simp_all add: IH)
qed



text \<open>
  When the sort columns are an array of objects none of which has a column, the handler
  returns: the sorter state is empty, the rows stay as they are, the grid is invalidated
  and rendered, and the empty state is emitted.
\<close>

lemma onSort_local_no_columns:
  assumes "normalize a = Some cols" and "list_all (\<lambda>entry. entry \<noteq> None) cols"
    and "list_all no_column cols"
  shows "onSort_local sbft (Some a) s =
     (Returned,
      s\<lparr>currentLocalSorters := [],
        trace := trace s @ [DataViewSort, GridInvalidate, GridRender, Emit []]\<rparr>)"
proof -
  have none: "filter (\<lambda>sortColumn. sortCol sortColumn \<noteq> None) (map the cols) = []"
    using assms(2,3) by (induction cols) (auto simp: no_column_def)
  have push: "push_sorters cols (s\<lparr>currentLocalSorters := []\<rparr>) = (Returned, s\<lparr>currentLocalSorters := []\<rparr>)"
    using push_sorters_present [OF assms(2), of "s\<lparr>currentLocalSorters := []\<rparr>"] none by simp
  have "dataView_sort (comparator sbft (Some cols)) (rows s) = Inr (rows s)"
    using assms(3) by (intro dataView_sort_equal) (simp add: compare_from_none)
  then have sorted: "onLocalSortChanged sbft (Some cols) (s\<lparr>currentLocalSorters := []\<rparr>) =
     (Returned, call GridRender (call GridInvalidate (call DataViewSort (s\<lparr>currentLocalSorters := []\<rparr>))))"
    by (simp add: onLocalSortChanged_def)
  show ?thesis
    using assms(1) push sorted
    by (simp add: onSort_local_def Let_def emitSortChanged_def call_def)
qed

text \<open>
  A multi-column gesture without its \<^verbatim>\<open>sortCols\<close> passes the \<^verbatim>\<open>Array.isArray\<close> guard of the
  handler, and raises in the comparator as soon as the data view has two rows to compare:
  the grid is neither invalidated nor rendered and nothing is emitted.
\<close>

lemma onSort_local_undefined_sortCols:
  assumes "args_multiColumnSort a" and "args_sortCols a = None" and "rows s = x # y # xs"
  shows "onSort_local sbft (Some a) s =
     (Raised TypeError, call DataViewSort (s\<lparr>currentLocalSorters := []\<rparr>))"
proof -
  have "dataView_sort (comparator sbft None) (x # y # xs) = Inl TypeError"
    by (intro dataView_sort_raises) simp
  with assms show ?thesis
    by (simp add: onSort_local_def normalize_def onLocalSortChanged_def Let_def)
qed

text \<open>A \<^verbatim>\<open>null\<close> among the sort columns, and an \<^verbatim>\<open>args\<close> that is \<^verbatim>\<open>undefined\<close>, raise as well.\<close>

lemma push_sorters_null:
  "list_all (\<lambda>entry. entry \<noteq> None) pre \<Longrightarrow> fst (push_sorters (pre @ None # rest) s) = Raised TypeError"
proof (induction pre arbitrary: s)
  case Nil
  then show ?case by simp
next
  case (Cons entry pre)
  then obtain sortColumn where e: "entry = Some sortColumn" by auto
  from Cons have "list_all (\<lambda>entry. entry \<noteq> None) pre" by simp
  from Cons.IH [OF this] show ?case unfolding e by simp
qed

lemma onSort_local_null_entry:
  assumes "normalize a = Some (pre @ None # rest)" and "list_all (\<lambda>entry. entry \<noteq> None) pre"
  shows "fst (onSort_local sbft (Some a) s) = Raised TypeError"
proof -
  obtain s2 where "push_sorters (pre @ None # rest) (s\<lparr>currentLocalSorters := []\<rparr>) = (Raised TypeError, s2)"
    using push_sorters_null [OF assms(2), of rest "s\<lparr>currentLocalSorters := []\<rparr>"]
    by (cases "push_sorters (pre @ None # rest) (s\<lparr>currentLocalSorters := []\<rparr>)") simp
  with assms(1) show ?thesis
    by (simp add: onSort_local_def Let_def)
qed

lemma onSort_local_undefined_args:
  "onSort_local sbft None s = (Raised TypeError, s)"
  by (simp add: onSort_local_def)

text \<open>
  Claim C8, at a gesture the handler does not survive: \<^verbatim>\<open>{multiColumnSort: true}\<close> on a
  data view of two rows. The sorter state is reset, the sort raises a \<^verbatim>\<open>TypeError\<close>, and
  the trace ends at \<^verbatim>\<open>dataView.sort\<close>; on a data view of one row the same gesture
  returns.
\<close>

theorem onSort_local_missing_sortCols:
  "onSort_local (sortByFieldType sample_cmp)
     (Some \<lparr>args_multiColumnSort = True, args_sortCols = None, args_sortAsc = False, args_sortCol = None\<rparr>)
     ((init () [row_5, row_2])\<lparr>currentLocalSorters := [\<lparr>columnId = KStr ''A'', direction = ''ASC''\<rparr>]\<rparr>) =
   (Raised TypeError, (init () [row_5, row_2])\<lparr>trace := [DataViewSort]\<rparr>) \<and>
   onSort_local (sortByFieldType sample_cmp)
     (Some \<lparr>args_multiColumnSort = True, args_sortCols = None, args_sortAsc = False, args_sortCol = None\<rparr>)
     (init () [row_5]) =
   (Returned, (init () [row_5])\<lparr>trace := [DataViewSort, GridInvalidate, GridRender, Emit []]\<rparr>)"
  by (simp add: onSort_local_def normalize_def onLocalSortChanged_def init_def call_def
      emitSortChanged_def)

subsection \<open>The backend sort handler\<close>



lemma before_emit:
  "gridOptions (call ServiceOnSortChanged ((if p then call PreProcess s else s)\<lparr>backend := b\<rparr>)) = gridOptions s"
  "backend (call ServiceOnSortChanged ((if p then call PreProcess s else s)\<lparr>backend := b\<rparr>)) = b"
  "trace (call ServiceOnSortChanged ((if p then call PreProcess s else s)\<lparr>backend := b\<rparr>)) =
     trace s @ (if p then [PreProcess] else []) @ [ServiceOnSortChanged]"
  by (simp_all add: call_def)

text \<open>The handler, once the gesture and the contract have passed its two checks.\<close>

lemma backend_run:
  assumes "args_grid a = Some g" and "backendApi_of (options_of g) = Some api"
    and "process api = Some proc" and "service api = Some svc"
    and "onSortChanged svc (gesture.truncate a) (backend s) = (query, b)"
  shows "attachBackendOnSortSubscribe (Some a) s =
     (let s2 = call ServiceOnSortChanged ((if preProcess api then call PreProcess s else s)\<lparr>backend := b\<rparr>);
          s4 = call Await (call (Process query) (emitSortChanged Remote s2))
      in case proc query of
           Inl e \<Rightarrow> (Raised e, s4)
         | Inr processResult \<Rightarrow> (Returned, post_hooks api processResult s4))"
  using assms by (simp add: attachBackendOnSortSubscribe_def call_def Let_def)

lemma trace_post_hooks:
  "trace (post_hooks api processResult s) =
     trace s @ (if truthy processResult \<and> internalPostProcess api then [InternalPostProcess processResult] else [])
       @ (if postProcess api then [PostProcess processResult] else [])"
  by (simp add: post_hooks_def call_def Let_def)






text \<open>
  Claim C6. When \<^verbatim>\<open>args\<close> or \<^verbatim>\<open>args.grid\<close> is missing the handler raises the error of the
  unpopulated \<^verbatim>\<open>args\<close>; when the backend contract, its \<^verbatim>\<open>process\<close> or its \<^verbatim>\<open>service\<close> is
  missing it raises the error of the contract. In both cases the state is the one it
  was called in: the sorter state is unchanged and the trace has no new entry, so no
  hook ran and nothing was broadcast.
\<close>

theorem backend_rejects:
  "(args = None \<or> (\<exists>a. args = Some a \<and> args_grid a = None) \<longrightarrow>
      attachBackendOnSortSubscribe args s = (Raised (Error args_not_populated), s)) \<and>
   (args = Some a \<and> args_grid a = Some g \<and>
      (backendApi_of (options_of g) = None \<or>
       (\<exists>api. backendApi_of (options_of g) = Some api \<and> (process api = None \<or> service api = None))) \<longrightarrow>
      attachBackendOnSortSubscribe args s = (Raised (Error backend_api_required), s))"
  by (auto simp: attachBackendOnSortSubscribe_def split: option.split)

theorem backend_rejects_witness:
  "attachBackendOnSortSubscribe None (sample_world sample_options) =
     (Raised (Error args_not_populated), sample_world sample_options) \<and>
   attachBackendOnSortSubscribe
     (Some ((sample_args sample_options)\<lparr>args_grid := None\<rparr>)) (sample_world sample_options) =
     (Raised (Error args_not_populated), sample_world sample_options) \<and>
   attachBackendOnSortSubscribe
     (Some (sample_args (sample_options\<lparr>backendServiceApi := Some (sample_api\<lparr>process := None\<rparr>)\<rparr>)))
     (sample_world sample_options) =
     (Raised (Error backend_api_required), sample_world sample_options)"
  using backend_rejects [where args = None and s = "sample_world sample_options"]
    backend_rejects [where args = "Some ((sample_args sample_options)\<lparr>args_grid := None\<rparr>)"
      and s = "sample_world sample_options"]
    backend_rejects [where
      args = "Some (sample_args (sample_options\<lparr>backendServiceApi := Some (sample_api\<lparr>process := None\<rparr>)\<rparr>))"
      and s = "sample_world sample_options"
      and a = "sample_args (sample_options\<lparr>backendServiceApi := Some (sample_api\<lparr>process := None\<rparr>)\<rparr>)"
      and g = "\<lparr>getOptions = Some (sample_options\<lparr>backendServiceApi := Some (sample_api\<lparr>process := None\<rparr>)\<rparr>),
        onSort = \<lparr>unsubscribe = True\<rparr>\<rparr>"]
  by (simp add: sample_args_def backendApi_of_def options_of_def sample_options_def)

subsection \<open>The emission\<close>

lemma onSort_local_emits_state:
  "fst (onSort_local sbft args s) = Returned \<Longrightarrow>
   last (trace (snd (onSort_local sbft args s))) = Emit (currentLocalSorters (snd (onSort_local sbft args s)))"
  by (auto simp: onSort_local_def Let_def emitSortChanged_def call_def
      split: option.splits prod.splits outcome.splits)

text \<open>
  Claim C7. With a backend service that has \<^verbatim>\<open>getCurrentSorters\<close>, a remote emission
  queries it and carries its answer; in the backend handler that is the answer in the
  state the service is in after its \<^verbatim>\<open>onSortChanged\<close>, not the gesture. A local emission
  carries the canonical local sorter state; the one the local handler ends with carries
  the state the handler has just computed.
\<close>

theorem emit_payload:
  "(gridOptions s = Some opts \<and> backendServiceApi opts = Some api \<and> service api = Some svc \<and>
      getCurrentSorters svc = Some get \<longrightarrow>
      emitSortChanged Remote s = call (Emit (get (backend s))) (call ServiceGetCurrentSorters s) \<and>
      (args_grid a = Some g \<and> backendApi_of (options_of g) = Some api' \<and> process api' = Some proc \<and>
         service api' = Some svc' \<and> onSortChanged svc' (gesture.truncate a) (backend s) = (query, b) \<longrightarrow>
       (\<exists>post. trace (snd (attachBackendOnSortSubscribe (Some a) s)) =
          trace s @ (if preProcess api' then [PreProcess] else []) @
            [ServiceOnSortChanged, ServiceGetCurrentSorters, Emit (get b), Process query, Await] @ post))) \<and>
   emitSortChanged Local s = call (Emit (currentLocalSorters s)) s \<and>
   (fst (onSort_local sbft gesture_args s) = Returned \<longrightarrow>
      last (trace (snd (onSort_local sbft gesture_args s))) =
        Emit (currentLocalSorters (snd (onSort_local sbft gesture_args s))))"
proof -
  have remote: "emitSortChanged Remote s = call (Emit (get (backend s))) (call ServiceGetCurrentSorters s)"
    if "gridOptions s = Some opts" "backendServiceApi opts = Some api" "service api = Some svc"
      "getCurrentSorters svc = Some get" for s :: "'a world"
    using that by (simp add: emitSortChanged_def)
  have handler: "\<exists>post. trace (snd (attachBackendOnSortSubscribe (Some a) s)) =
          trace s @ (if preProcess api' then [PreProcess] else []) @
            [ServiceOnSortChanged, ServiceGetCurrentSorters, Emit (get b), Process query, Await] @ post"
    if cfg: "gridOptions s = Some opts" "backendServiceApi opts = Some api" "service api = Some svc"
      "getCurrentSorters svc = Some get"
      and run: "args_grid a = Some g" "backendApi_of (options_of g) = Some api'" "process api' = Some proc"
      "service api' = Some svc'" "onSortChanged svc' (gesture.truncate a) (backend s) = (query, b)"
  proof -
    let ?s2 = "call ServiceOnSortChanged ((if preProcess api' then call PreProcess s else s)\<lparr>backend := b\<rparr>)"
    have e: "emitSortChanged Remote ?s2 = call (Emit (get b)) (call ServiceGetCurrentSorters ?s2)"
      using remote [of ?s2] cfg by (simp only: before_emit)
    show ?thesis
    proof (cases "proc query")
      case (Inl err)
      with backend_run [OF run] e show ?thesis
        by (simp add: Let_def call_def)
    next
      case (Inr processResult)
      with backend_run [OF run] e show ?thesis
        by (simp add: Let_def trace_post_hooks) (simp add: call_def)
    qed
  qed
  have loc: "emitSortChanged Local s = call (Emit (currentLocalSorters s)) s"
    by (simp add: emitSortChanged_def)
  from remote [of s] handler loc onSort_local_emits_state [of sbft gesture_args s]
  show ?thesis by blast
qed

theorem emit_payload_witness:
  "emitSortChanged Remote (sample_world sample_options) =
     call (Emit [\<lparr>columnId = KStr ''B'', direction = ''DESC''\<rparr>])
       (call ServiceGetCurrentSorters (sample_world sample_options)) \<and>
   take 5 (trace (snd (attachBackendOnSortSubscribe (Some (sample_args sample_options))
       (sample_world sample_options)))) =
     [SubscriberSubscribe, PreProcess, ServiceOnSortChanged, ServiceGetCurrentSorters,
      Emit [\<lparr>columnId = KStr ''B'', direction = ''DESC''\<rparr>]] \<and>
   emitSortChanged Local (sample_world sample_options) = call (Emit []) (sample_world sample_options) \<and>
   last (trace (snd (onSort_local (sortByFieldType sample_cmp)
       (Some (sample_args sample_options)) (sample_world sample_options)))) =
     Emit [\<lparr>columnId = KStr ''A'', direction = ''ASC''\<rparr>]"
proof -
  let ?s = "sample_world sample_options"
  let ?a = "sample_args sample_options"
  have cfg: "gridOptions ?s = Some sample_options \<and>
      backendServiceApi sample_options = Some sample_api \<and>
      service sample_api = Some sample_service \<and>
      getCurrentSorters sample_service = Some (\<lambda>st. st)"
    by (simp add: sample_world_def attachBackendOnSort_def call_def sample_options_def
        sample_api_def sample_service_def)
  have run: "args_grid ?a = Some \<lparr>getOptions = Some sample_options, onSort = \<lparr>unsubscribe = True\<rparr>\<rparr> \<and>
      backendApi_of (options_of \<lparr>getOptions = Some sample_options, onSort = \<lparr>unsubscribe = True\<rparr>\<rparr>) =
        Some sample_api \<and>
      process sample_api = Some (\<lambda>query. Inr (Some (JObj ''data''))) \<and>
      service sample_api = Some sample_service \<and>
      onSortChanged sample_service (gesture.truncate ?a) (backend ?s) =
        (''orderby'', [\<lparr>columnId = KStr ''B'', direction = ''DESC''\<rparr>])"
    by (simp add: sample_args_def backendApi_of_def options_of_def sample_options_def sample_api_def
        sample_service_def sample_world_def attachBackendOnSort_def init_def call_def)
  have st: "backend ?s = [\<lparr>columnId = KStr ''B'', direction = ''DESC''\<rparr>]"
    "currentLocalSorters ?s = []" "trace ?s = [SubscriberSubscribe]" "preProcess sample_api"
    by (simp_all add: sample_world_def attachBackendOnSort_def call_def init_def sample_api_def)
  have ret: "onSort_local (sortByFieldType sample_cmp) (Some ?a) ?s =
      (Returned, ?s\<lparr>currentLocalSorters := [\<lparr>columnId = KStr ''A'', direction = ''ASC''\<rparr>],
                    trace := [SubscriberSubscribe, DataViewSort, GridInvalidate, GridRender,
                              Emit [\<lparr>columnId = KStr ''A'', direction = ''ASC''\<rparr>]]\<rparr>)"
    by (simp add: onSort_local_def normalize_def sample_args_def sample_world_def
        attachBackendOnSort_def init_def call_def onLocalSortChanged_def emitSortChanged_def
        col_A_def ASC_def)
  note payload = emit_payload [where s = ?s and opts = sample_options
      and api = sample_api and svc = sample_service and get = "\<lambda>st. st"
      and a = ?a and g = "\<lparr>getOptions = Some sample_options, onSort = \<lparr>unsubscribe = True\<rparr>\<rparr>"
      and api' = sample_api and proc = "\<lambda>query. Inr (Some (JObj ''data''))" and svc' = sample_service
      and query = "''orderby''" and b = "[\<lparr>columnId = KStr ''B'', direction = ''DESC''\<rparr>]"
      and sbft = "sortByFieldType sample_cmp" and gesture_args = "Some ?a"]
  from payload cfg
  have remote: "emitSortChanged Remote ?s =
      call (Emit ((\<lambda>st. st) (backend ?s))) (call ServiceGetCurrentSorters ?s)"
    and loc: "emitSortChanged Local ?s = call (Emit (currentLocalSorters ?s)) ?s"
    by blast+
  from payload cfg run
  obtain post where "trace (snd (attachBackendOnSortSubscribe (Some ?a) ?s)) =
      trace ?s @ (if preProcess sample_api then [PreProcess] else []) @
        [ServiceOnSortChanged, ServiceGetCurrentSorters,
         Emit ((\<lambda>st. st) [\<lparr>columnId = KStr ''B'', direction = ''DESC''\<rparr>]), Process ''orderby'', Await] @ post"
    by blast
  then have handler: "take 5 (trace (snd (attachBackendOnSortSubscribe (Some ?a) ?s))) =
     [SubscriberSubscribe, PreProcess, ServiceOnSortChanged, ServiceGetCurrentSorters,
      Emit [\<lparr>columnId = KStr ''B'', direction = ''DESC''\<rparr>]]"
    by (simp add: st)
  from payload ret
  have "last (trace (snd (onSort_local (sortByFieldType sample_cmp) (Some ?a) ?s))) =
      Emit (currentLocalSorters (snd (onSort_local (sortByFieldType sample_cmp) (Some ?a) ?s)))"
    by simp
  then have "last (trace (snd (onSort_local (sortByFieldType sample_cmp) (Some ?a) ?s))) =
      Emit [\<lparr>columnId = KStr ''A'', direction = ''ASC''\<rparr>]"
    by (simp add: ret)
  with remote loc handler show ?thesis by (simp add: st)
qed

text \<open>
  Claim C10. A remote emission emits nothing, and changes nothing, when the stored grid
  options are missing or have no \<^verbatim>\<open>backendServiceApi\<close>; with a \<^verbatim>\<open>backendServiceApi\<close> whose
  service is missing or has no \<^verbatim>\<open>getCurrentSorters\<close> it emits the empty list. So a backend
  configured through \<^verbatim>\<open>onBackendEventApi\<close> only passes the checks of the handler, and the
  handler runs to its end without a broadcast.
\<close>

theorem remote_emission_gate:
  "(gridOptions s = None \<or> (\<exists>opts. gridOptions s = Some opts \<and> backendServiceApi opts = None) \<longrightarrow>
      emitSortChanged Remote s = s) \<and>
   (gridOptions s = Some opts \<and> backendServiceApi opts = Some api \<and>
      (service api = None \<or> (\<exists>svc. service api = Some svc \<and> getCurrentSorters svc = None)) \<longrightarrow>
      emitSortChanged Remote s = call (Emit []) s) \<and>
   (gridOptions s = Some legacy \<and> backendServiceApi legacy = None \<and>
      onBackendEventApi legacy = Some api' \<and> process api' = Some proc \<and> service api' = Some svc' \<and>
      args_grid a = Some g \<and> getOptions g = Some legacy \<and>
      onSortChanged svc' (gesture.truncate a) (backend s) = (query, b) \<and> proc query = Inr processResult \<longrightarrow>
      fst (attachBackendOnSortSubscribe (Some a) s) = Returned \<and>
      trace (snd (attachBackendOnSortSubscribe (Some a) s)) =
        trace s @ (if preProcess api' then [PreProcess] else []) @
          [ServiceOnSortChanged, Process query, Await] @
          (if truthy processResult \<and> internalPostProcess api' then [InternalPostProcess processResult] else []) @
          (if postProcess api' then [PostProcess processResult] else []))"
proof -
  have gate: "emitSortChanged Remote s = s"
    if "gridOptions s = None \<or> (\<exists>opts. gridOptions s = Some opts \<and> backendServiceApi opts = None)"
    for s :: "'a world"
    using that by (auto simp: emitSortChanged_def)
  have empty: "emitSortChanged Remote s = call (Emit []) s"
    if "gridOptions s = Some opts" "backendServiceApi opts = Some api"
      "service api = None \<or> (\<exists>svc. service api = Some svc \<and> getCurrentSorters svc = None)"
    using that by (auto simp: emitSortChanged_def)
  have legacy: "fst (attachBackendOnSortSubscribe (Some a) s) = Returned \<and>
      trace (snd (attachBackendOnSortSubscribe (Some a) s)) =
        trace s @ (if preProcess api' then [PreProcess] else []) @
          [ServiceOnSortChanged, Process query, Await] @
          (if truthy processResult \<and> internalPostProcess api' then [InternalPostProcess processResult] else []) @
          (if postProcess api' then [PostProcess processResult] else [])"
    if cfg: "gridOptions s = Some legacy" "backendServiceApi legacy = None"
      and api: "onBackendEventApi legacy = Some api'" and proc: "process api' = Some proc"
      and svc: "service api' = Some svc'" and g: "args_grid a = Some g" "getOptions g = Some legacy"
      and q: "onSortChanged svc' (gesture.truncate a) (backend s) = (query, b)"
      and r: "proc query = Inr processResult"
  proof -
    let ?s2 = "call ServiceOnSortChanged ((if preProcess api' then call PreProcess s else s)\<lparr>backend := b\<rparr>)"
    have resolved: "backendApi_of (options_of g) = Some api'"
      using cfg api g by (simp add: backendApi_of_def options_of_def)
    have "gridOptions ?s2 = Some legacy" using cfg by (simp only: before_emit)
    with cfg have e: "emitSortChanged Remote ?s2 = ?s2"
      by (intro gate) simp
    from backend_run [OF g(1) resolved proc svc q] r e show ?thesis
      by (simp add: Let_def trace_post_hooks) (simp add: call_def)
  qed
  from gate [of s] empty legacy show ?thesis by blast
qed

theorem remote_emission_gate_witness:
  "emitSortChanged Remote (sample_world legacy_options) = sample_world legacy_options \<and>
   emitSortChanged Remote
     (sample_world (sample_options\<lparr>backendServiceApi :=
        Some (sample_api\<lparr>service := Some (sample_service\<lparr>getCurrentSorters := None\<rparr>)\<rparr>)\<rparr>)) =
     call (Emit [])
       (sample_world (sample_options\<lparr>backendServiceApi :=
          Some (sample_api\<lparr>service := Some (sample_service\<lparr>getCurrentSorters := None\<rparr>)\<rparr>)\<rparr>)) \<and>
   trace (snd (attachBackendOnSortSubscribe (Some (sample_args legacy_options))
       (sample_world legacy_options))) =
     [SubscriberSubscribe, PreProcess, ServiceOnSortChanged, Process ''orderby'', Await,
      InternalPostProcess (Some (JObj ''data'')), PostProcess (Some (JObj ''data''))]"
proof -
  have "trace (snd (attachBackendOnSortSubscribe (Some (sample_args legacy_options))
       (sample_world legacy_options))) =
     [SubscriberSubscribe, PreProcess, ServiceOnSortChanged, Process ''orderby'', Await,
      InternalPostProcess (Some (JObj ''data'')), PostProcess (Some (JObj ''data''))]"
    by (simp add: attachBackendOnSortSubscribe_def sample_args_def sample_world_def
        attachBackendOnSort_def init_def call_def backendApi_of_def options_of_def
        legacy_options_def sample_api_def sample_service_def gesture.truncate_def
        emitSortChanged_def post_hooks_def)
  then show ?thesis
    using remote_emission_gate [where s = "sample_world legacy_options"]
      remote_emission_gate [where
        s = "sample_world (sample_options\<lparr>backendServiceApi :=
            Some (sample_api\<lparr>service := Some (sample_service\<lparr>getCurrentSorters := None\<rparr>)\<rparr>)\<rparr>)"
        and opts = "sample_options\<lparr>backendServiceApi :=
            Some (sample_api\<lparr>service := Some (sample_service\<lparr>getCurrentSorters := None\<rparr>)\<rparr>)\<rparr>"
        and api = "sample_api\<lparr>service := Some (sample_service\<lparr>getCurrentSorters := None\<rparr>)\<rparr>"]
    by (simp add: sample_world_def attachBackendOnSort_def call_def init_def legacy_options_def
        sample_options_def)
qed

subsection \<open>Disposal\<close>

lemma dispose_cases:
  "dispose s =
     (Returned,
      call EventHandlerUnsubscribeAll
        ((case slickSubscriber s of
            None \<Rightarrow> s
          | Some e \<Rightarrow> if unsubscribe e then call SubscriberUnsubscribe s else s)\<lparr>eventHandler := []\<rparr>))"
  by (simp add: dispose_def call_unsubscribe_def split: option.split)

text \<open>
  Claim C9. \<^verbatim>\<open>dispose\<close> returns in every state, also in the one it leaves behind, and
  also in the state of a service that never attached; a second call changes no field of
  the service (it only adds to the trace). Without a subscriber, or with one whose
  \<^verbatim>\<open>unsubscribe\<close> is not a function, the call of \<^verbatim>\<open>unsubscribe\<close> is skipped.
\<close>

theorem dispose_never_raises:
  "fst (dispose s) = Returned \<and>
   fst (dispose (snd (dispose s))) = Returned \<and>
   eventHandler (snd (dispose s)) = [] \<and>
   (snd (dispose (snd (dispose s))))\<lparr>trace := t\<rparr> = (snd (dispose s))\<lparr>trace := t\<rparr> \<and>
   dispose (init b rs) = (Returned, call EventHandlerUnsubscribeAll (init b rs)) \<and>
   (slickSubscriber s = None \<or> slickSubscriber s = Some \<lparr>unsubscribe = False\<rparr> \<longrightarrow>
      dispose s = (Returned, call EventHandlerUnsubscribeAll (s\<lparr>eventHandler := []\<rparr>)))"
  by (auto simp: dispose_cases call_def init_def split: option.split)

theorem dispose_never_raises_witness:
  "dispose (init () []) = (Returned, call EventHandlerUnsubscribeAll (init () [])) \<and>
   dispose (snd (dispose (init () []))) =
     (Returned, call EventHandlerUnsubscribeAll (call EventHandlerUnsubscribeAll (init () []))) \<and>
   trace (snd (dispose (sample_world sample_options))) =
     [SubscriberSubscribe, SubscriberUnsubscribe, EventHandlerUnsubscribeAll]"
  using dispose_never_raises [where s = "init () []" and b = "()" and rs = "[]"]
  by (simp add: init_def call_def dispose_cases sample_world_def attachBackendOnSort_def)

end
